theory Spec2Isabelle
  imports Complex_Main
begin

section \<open>The limit engine of limits.py\<close>

text \<open>
  The module \<^verbatim>\<open>limits.py\<close> computes limits with the Gruntz algorithm on top of an
  expression kernel (imported as \<^verbatim>\<open>sym\<close>) that is not part of the sources. The
  functions of \<^verbatim>\<open>limits.py\<close> are embedded one by one; every operation of the
  kernel they call is a field of the record \<open>kernel\<close>, so each result below holds for
  whatever kernel is plugged in.
\<close>

subsection \<open>Expression trees\<close>

text \<open>
  The node kinds that \<^verbatim>\<open>limits.py\<close> tests with \<^verbatim>\<open>isinstance\<close> or builds itself:
  \<^verbatim>\<open>s.number\<close> (a rational), \<^verbatim>\<open>s.symbol\<close>, \<^verbatim>\<open>s.add\<close> and \<^verbatim>\<open>s.mul\<close> with
  their \<^verbatim>\<open>args\<close>, \<^verbatim>\<open>s.pow\<close> with fields \<^verbatim>\<open>a\<close> and \<^verbatim>\<open>b\<close>, \<^verbatim>\<open>s.exp\<close> and
  \<^verbatim>\<open>s.ln\<close> with field \<^verbatim>\<open>arg\<close>, and the constant \<^verbatim>\<open>s.infty\<close>.
\<close>

datatype expr =
    Rational rat
  | Symbol string
  | Add "expr list"
  | Mul "expr list"
  | Pow expr expr
  | Exp expr
  | Ln expr
  | Infty

text \<open>
  Everything that makes a call of the module stop without a value. The two string
  exceptions carry the expression of their message; an assertion carries the text of
  the asserted condition; \<open>RecursionLimitExceeded\<close> is the interpreter running out of
  call depth; \<open>ReturnedNone\<close> is \<^verbatim>\<open>limitinf\<close> falling off the end of its
  \<^verbatim>\<open>if\<close>/\<^verbatim>\<open>elif\<close> chain.
\<close>

datatype error =
    RecursionLimitExceeded
  | AssertionError string
  | PoleError
  | IndexError
  | AttributeError
  | CannotDetermineSign expr
  | UnimplementedInMrv expr
  | ReturnedNone

subsection \<open>The kernel operations used by the module\<close>

record kernel =
  k_eval :: "expr \<Rightarrow> expr"
  k_subs :: "expr \<Rightarrow> expr \<Rightarrow> expr \<Rightarrow> expr"
  k_diff :: "expr \<Rightarrow> expr \<Rightarrow> expr"
  k_isequal :: "expr \<Rightarrow> expr \<Rightarrow> bool"
  k_eq :: "expr \<Rightarrow> expr \<Rightarrow> bool"
  k_lt :: "expr \<Rightarrow> expr \<Rightarrow> bool"
  k_series :: "expr \<Rightarrow> expr \<Rightarrow> nat \<Rightarrow> error + expr"
  k_getab :: "expr \<Rightarrow> expr \<times> expr"
  k_add :: "expr \<Rightarrow> expr \<Rightarrow> expr"
  k_sub :: "expr \<Rightarrow> expr \<Rightarrow> expr"
  k_mul :: "expr \<Rightarrow> expr \<Rightarrow> expr"
  k_div :: "expr \<Rightarrow> expr \<Rightarrow> expr"
  k_pow :: "expr \<Rightarrow> expr \<Rightarrow> expr"

text \<open>
  \<open>k_eval e\<close> is \<^verbatim>\<open>e.eval()\<close>, \<open>k_subs e old new\<close> is \<^verbatim>\<open>e.subs(old,new)\<close>,
  \<open>k_diff e x\<close> is \<^verbatim>\<open>e.diff(x)\<close>, \<open>k_isequal\<close> is \<^verbatim>\<open>isequal\<close>, \<open>k_eq\<close> is the
  kernel's \<^verbatim>\<open>==\<close> (and \<^verbatim>\<open>!=\<close> its negation), \<open>k_lt\<close> its \<^verbatim>\<open><\<close>,
  \<open>k_series f x n\<close> is \<^verbatim>\<open>f.series(x,n)\<close>, which may raise, \<open>k_getab\<close> is
  \<^verbatim>\<open>getab()\<close>, and the last five are the overloaded operators
  \<^verbatim>\<open>+ - * / **\<close> that build new expressions.
\<close>

subsection \<open>List helpers\<close>

definition member :: "kernel \<Rightarrow> expr \<Rightarrow> expr list \<Rightarrow> bool" where
  "member K x a = list_ex (\<lambda>y. k_eq K x y) a"

definition intersect :: "kernel \<Rightarrow> expr list \<Rightarrow> expr list \<Rightarrow> bool" where
  "intersect K a b = list_ex (\<lambda>x. member K x b) a"

definition union_l :: "kernel \<Rightarrow> expr list \<Rightarrow> expr list \<Rightarrow> expr list" where
  "union_l K a b = a @ filter (\<lambda>x. \<not> member K x a) b"

primrec mapE :: "('a \<Rightarrow> error + 'b) \<Rightarrow> 'a list \<Rightarrow> error + 'b list" where
  "mapE f [] = Inr []"
| "mapE f (x # xs) =
     (case f x of Inl err \<Rightarrow> Inl err
      | Inr y \<Rightarrow> (case mapE f xs of Inl err \<Rightarrow> Inl err | Inr ys \<Rightarrow> Inr (y # ys)))"

subsection \<open>has, sign\<close>

definition has :: "kernel \<Rightarrow> expr \<Rightarrow> expr \<Rightarrow> bool" where
  "has K e x = (\<not> k_isequal K (k_diff K e x) (Rational 0))"

definition number_sign :: "rat \<Rightarrow> int" where
  "number_sign r = (if 0 < r then 1 else if r = 0 then 0 else - 1)"

fun sign :: "kernel \<Rightarrow> nat \<Rightarrow> expr \<Rightarrow> expr \<Rightarrow> error + int" where
  "sign K 0 e x = Inl RecursionLimitExceeded"
| "sign K (Suc n) e x =
     (case e of
        Rational r \<Rightarrow> Inr (number_sign r)
      | _ \<Rightarrow>
        if k_eq K e x then Inr 1
        else (case e of
            Mul args \<Rightarrow>
              (case k_getab K e of (a, b) \<Rightarrow>
                (case sign K n a x of Inl err \<Rightarrow> Inl err
                 | Inr sa \<Rightarrow>
                   (case sign K n b x of Inl err \<Rightarrow> Inl err
                    | Inr sb \<Rightarrow> Inr (sa * sb))))
          | Exp u \<Rightarrow> Inr 1
          | Pow a b \<Rightarrow>
              (case sign K n a x of Inl err \<Rightarrow> Inl err
               | Inr sa \<Rightarrow> if sa = 1 then Inr 1 else Inl (CannotDetermineSign e))
          | _ \<Rightarrow> Inl (CannotDetermineSign e)))"

subsection \<open>leadterm\<close>

definition domul :: "expr list \<Rightarrow> error + expr" where
  "domul xs =
     (if 1 < length xs then Inr (Mul xs)
      else (case xs of [] \<Rightarrow> Inl IndexError | y # ys \<Rightarrow> Inr y))"

fun extract_loop ::
  "kernel \<Rightarrow> expr \<Rightarrow> expr \<Rightarrow> expr list \<Rightarrow> expr list \<Rightarrow> error + (expr \<times> expr)" where
  "extract_loop K x t pre [] = Inr (t, Rational 0)"
| "extract_loop K x t pre (a # post) =
     (if has K a x then
        (case a of
           Pow pa pb \<Rightarrow>
             (case domul (pre @ post) of Inl err \<Rightarrow> Inl err | Inr m \<Rightarrow> Inr (m, pb))
         | Symbol nm \<Rightarrow>
             (case domul (pre @ post) of Inl err \<Rightarrow> Inl err
              | Inr m \<Rightarrow> Inr (m, Rational 1))
         | _ \<Rightarrow> Inl (AssertionError ''False''))
      else extract_loop K x t (pre @ [a]) post)"

definition extract_term :: "kernel \<Rightarrow> expr \<Rightarrow> expr \<Rightarrow> error + (expr \<times> expr)" where
  "extract_term K t x =
     (if \<not> has K t x then Inr (t, Rational 0)
      else (case t of
          Pow pa pb \<Rightarrow> Inr (Rational 1, pb)
        | Symbol nm \<Rightarrow> Inr (Rational 1, Rational 1)
        | Mul args \<Rightarrow> extract_loop K x t [] args
        | _ \<Rightarrow> Inl (AssertionError ''isinstance(t,s.mul)'')))"

fun lowest_loop ::
  "kernel \<Rightarrow> expr \<Rightarrow> expr list \<Rightarrow> expr \<times> expr \<Rightarrow> error + (expr \<times> expr)" where
  "lowest_loop K x [] lowest = Inr lowest"
| "lowest_loop K x (t # ts) lowest =
     (case extract_term K t x of Inl err \<Rightarrow> Inl err
      | Inr t2 \<Rightarrow>
          lowest_loop K x ts (if k_lt K (snd t2) (snd lowest) then t2 else lowest))"

definition leadterm :: "kernel \<Rightarrow> expr \<Rightarrow> expr \<Rightarrow> error + (expr \<times> expr)" where
  "leadterm K f x =
     (case k_series K f x 1 of Inl err \<Rightarrow> Inl err
      | Inr s0 \<Rightarrow>
          (let series = k_eval K s0 in
           if k_eq K series (Rational 0) then Inl (AssertionError ''series!=0'')
           else (case series of
               Add args \<Rightarrow>
                 lowest_loop K x args
                   (Rational 0, k_eval K (k_pow K (Rational 10) (Rational 10)))
             | _ \<Rightarrow> extract_term K series x)))"

subsection \<open>moveup, movedown, the sort of rewrite\<close>

definition moveup :: "kernel \<Rightarrow> expr list \<Rightarrow> expr \<Rightarrow> expr list" where
  "moveup K l x = map (\<lambda>e. k_eval K (k_subs K e x (Exp x))) l"

definition movedown :: "kernel \<Rightarrow> expr list \<Rightarrow> expr \<Rightarrow> expr list" where
  "movedown K l x = map (\<lambda>e. k_eval K (k_subs K e x (Ln x))) l"

definition is_exp :: "expr \<Rightarrow> bool" where
  "is_exp t = (case t of Exp u \<Rightarrow> True | _ \<Rightarrow> False)"

text \<open>
  \<^verbatim>\<open>Omega.sort(cmp=cmpfunc)\<close> with \<^verbatim>\<open>cmpfunc(a,b) = -cmp(len(mrv(a,x)), len(mrv(b,x)))\<close>:
  a stable sort by the length of the mrv list, largest first. \<open>ks\<close> are those lengths.
\<close>

definition sort_by_keys :: "expr list \<Rightarrow> nat list \<Rightarrow> expr list" where
  "sort_by_keys Om ks = map fst (sort_key (\<lambda>p. - int (snd p)) (zip Om ks))"

definition rewrite_entry :: "expr list \<Rightarrow> error + unit" where
  "rewrite_entry Omega =
     (if \<not> list_all is_exp Omega then Inl (AssertionError ''isinstance(t,s.exp)'')
      else if length Omega = 0 then Inl (AssertionError ''len(Omega)!=0'')
      else Inr ())"

text \<open>\<^verbatim>\<open>if Omega==None: Omega=mrv(e,x)\<close>: the optional argument, or else the computed list.\<close>

definition if_none :: "'a option \<Rightarrow> error + 'a \<Rightarrow> error + 'a" where
  "if_none Omega computed = (case Omega of None \<Rightarrow> computed | Some Om \<Rightarrow> Inr Om)"

subsection \<open>The mutually recursive core\<close>

text \<open>
  \<^verbatim>\<open>limitinf\<close>, \<^verbatim>\<open>mrvleadterm\<close>, \<^verbatim>\<open>rewrite\<close>, \<^verbatim>\<open>mrv\<close>, \<^verbatim>\<open>max\<close> and
  \<^verbatim>\<open>compare\<close> call each other without a bound that the module could know. Each
  takes the call depth that is left and gives \<open>RecursionLimitExceeded\<close> at depth 0.
  The recursion is on that depth: \<open>at_depth K n\<close> holds the six functions at depth
  \<open>n\<close>, and the body of each function at depth \<open>Suc n\<close> calls the functions of
  \<open>at_depth K n\<close>. The equations \<open>limitinf_Suc\<close>, \<open>mrvleadterm_Suc\<close>, ... below give
  the functions in the shape of the source.
\<close>

record engine =
  limitinf_at :: "expr \<Rightarrow> expr \<Rightarrow> error + expr"
  mrvleadterm_at :: "expr \<Rightarrow> expr \<Rightarrow> expr list option \<Rightarrow> error + (expr \<times> expr)"
  rewrite_at :: "expr \<Rightarrow> expr list \<Rightarrow> expr \<Rightarrow> expr \<Rightarrow> error + expr"
  mrv_at :: "expr \<Rightarrow> expr \<Rightarrow> error + expr list"
  max_at :: "expr list \<Rightarrow> expr list \<Rightarrow> expr \<Rightarrow> error + expr list"
  compare_at :: "expr \<Rightarrow> expr \<Rightarrow> expr \<Rightarrow> error + string"

definition limitinf_body :: "kernel \<Rightarrow> nat \<Rightarrow> engine \<Rightarrow> expr \<Rightarrow> expr \<Rightarrow> error + expr" where
  "limitinf_body K n E e x =
     (if \<not> has K e x then Inr e
      else (case mrvleadterm_at E e x None of Inl err \<Rightarrow> Inl err
        | Inr (c0, e0) \<Rightarrow>
          (case sign K n e0 x of Inl err \<Rightarrow> Inl err
           | Inr sig \<Rightarrow>
               if sig = 1 then Inr (Rational 0)
               else if sig = - 1 then Inr Infty
               else if sig = 0 then limitinf_at E c0 x
               else Inl ReturnedNone)))"

definition mrvleadterm_body ::
  "kernel \<Rightarrow> engine \<Rightarrow> expr \<Rightarrow> expr \<Rightarrow> expr list option \<Rightarrow> error + (expr \<times> expr)" where
  "mrvleadterm_body K E e x Omega =
     (let e1 = k_eval K e in
      if \<not> has K e1 x then Inr (e1, Rational 0)
      else (case if_none Omega (mrv_at E e1 x) of
          Inl err \<Rightarrow> Inl err
        | Inr Om \<Rightarrow>
            if member K x Om then
              (case mrvleadterm_at E (moveup K [e1] x ! 0) x (Some (moveup K Om x)) of
                 Inl err \<Rightarrow> Inl err
               | Inr (c0, e0) \<Rightarrow>
                   (let r = movedown K [c0, e0] x in Inr (r ! 0, r ! 1)))
            else (case rewrite_at E e1 Om x (Symbol ''w'') of Inl err \<Rightarrow> Inl err
               | Inr f \<Rightarrow> leadterm K f (Symbol ''w''))))"

text \<open>
  In \<^verbatim>\<open>rewrite\<close>, the comparison function of the sort calls \<^verbatim>\<open>mrv\<close> on the
  elements it compares: on every element when there are two or more, on none
  otherwise. \<open>rewrite_term\<close> is the body of the loop that fills \<^verbatim>\<open>O2\<close>.
  \<open>rewrite_pairs_body\<close> is the first half of \<^verbatim>\<open>rewrite\<close>, up to the list
  \<^verbatim>\<open>zip(Omega,O2)\<close> (``rewrite Omega using w''), and \<open>subs_all\<close> the second half,
  the loop that substitutes these pairs into \<^verbatim>\<open>e\<close> one after the other
  (``rewrite e using w'').
\<close>

definition rewrite_keys ::
  "(expr \<Rightarrow> expr \<Rightarrow> error + expr list) \<Rightarrow> expr list \<Rightarrow> expr \<Rightarrow> error + nat list" where
  "rewrite_keys mrv_n Omega x =
     mapE (\<lambda>t. if length Omega < 2 then Inr 0
                else (case mrv_n t x of Inl err \<Rightarrow> Inl err | Inr m \<Rightarrow> Inr (length m)))
       Omega"

definition rewrite_term ::
  "kernel \<Rightarrow> (expr \<Rightarrow> expr \<Rightarrow> expr list option \<Rightarrow> error + (expr \<times> expr)) \<Rightarrow>
     expr \<Rightarrow> expr \<Rightarrow> expr \<Rightarrow> expr \<Rightarrow> error + expr" where
  "rewrite_term K mrvleadterm_n garg x w f =
     (case f of
        Exp farg \<Rightarrow>
          (case mrvleadterm_n (k_div K farg garg) x None of Inl err \<Rightarrow> Inl err
           | Inr c \<Rightarrow>
               if \<not> k_eq K (snd c) (Rational 0) then Inl (AssertionError ''c[1]==0'')
               else Inr (k_eval K
                      (k_mul K (Exp (k_sub K farg (k_mul K (fst c) garg)))
                         (k_pow K w (fst c)))))
      | _ \<Rightarrow> Inl AttributeError)"

definition subs_all :: "kernel \<Rightarrow> expr \<Rightarrow> (expr \<times> expr) list \<Rightarrow> expr" where
  "subs_all K e ps = foldl (\<lambda>f p. k_subs K f (fst p) (snd p)) e ps"

definition rewrite_pairs_body ::
  "kernel \<Rightarrow> nat \<Rightarrow> engine \<Rightarrow> expr list \<Rightarrow> expr \<Rightarrow> expr \<Rightarrow> error + (expr \<times> expr) list" where
  "rewrite_pairs_body K n E Omega x wsym =
     (case rewrite_entry Omega of Inl err \<Rightarrow> Inl err
      | Inr u \<Rightarrow>
        (case rewrite_keys (mrv_at E) Omega x of Inl err \<Rightarrow> Inl err
         | Inr ks \<Rightarrow>
           (let Om = sort_by_keys Omega ks in
            case last Om of
              Exp garg \<Rightarrow>
                (case sign K n garg x of Inl err \<Rightarrow> Inl err
                 | Inr sg \<Rightarrow>
                   (let w = (if sg = 1 then k_div K (Rational 1) wsym else wsym) in
                    case mapE (rewrite_term K (mrvleadterm_at E) garg x w) Om of
                      Inl err \<Rightarrow> Inl err
                    | Inr O2 \<Rightarrow> Inr (zip Om O2)))
            | _ \<Rightarrow> Inl AttributeError)))"

definition rewrite_body ::
  "kernel \<Rightarrow> nat \<Rightarrow> engine \<Rightarrow> expr \<Rightarrow> expr list \<Rightarrow> expr \<Rightarrow> expr \<Rightarrow> error + expr" where
  "rewrite_body K n E e Omega x wsym =
     (case rewrite_pairs_body K n E Omega x wsym of Inl err \<Rightarrow> Inl err
      | Inr ps \<Rightarrow> Inr (subs_all K e ps))"

definition mrv_body :: "kernel \<Rightarrow> engine \<Rightarrow> expr \<Rightarrow> expr \<Rightarrow> error + expr list" where
  "mrv_body K E e x =
     (if \<not> has K e x then Inr []
      else if k_eq K e x then Inr [x]
      else (case e of
          Mul args \<Rightarrow>
            (case k_getab K e of (a, b) \<Rightarrow>
              (case mrv_at E a x of Inl err \<Rightarrow> Inl err
               | Inr ma \<Rightarrow>
                 (case mrv_at E b x of Inl err \<Rightarrow> Inl err
                  | Inr mb \<Rightarrow> max_at E ma mb x)))
        | Add args \<Rightarrow>
            (case k_getab K e of (a, b) \<Rightarrow>
              (case mrv_at E a x of Inl err \<Rightarrow> Inl err
               | Inr ma \<Rightarrow>
                 (case mrv_at E b x of Inl err \<Rightarrow> Inl err
                  | Inr mb \<Rightarrow> max_at E ma mb x)))
        | Pow a b \<Rightarrow>
            (case b of Rational r \<Rightarrow> mrv_at E a x | _ \<Rightarrow> Inl (UnimplementedInMrv e))
        | Ln u \<Rightarrow> mrv_at E u x
        | Exp u \<Rightarrow>
            (case limitinf_at E u x of Inl err \<Rightarrow> Inl err
             | Inr l \<Rightarrow>
                 if k_eq K l Infty then
                   (case mrv_at E u x of Inl err \<Rightarrow> Inl err
                    | Inr mu \<Rightarrow> max_at E [e] mu x)
                 else mrv_at E u x)
        | _ \<Rightarrow> Inl (UnimplementedInMrv e)))"

definition max_body ::
  "kernel \<Rightarrow> engine \<Rightarrow> expr list \<Rightarrow> expr list \<Rightarrow> expr \<Rightarrow> error + expr list" where
  "max_body K E f g x =
     (if f = [] then Inr g
      else if g = [] then Inr f
      else if intersect K f g then Inr (union_l K f g)
      else if member K x f then Inr g
      else if member K x g then Inr f
      else (case compare_at E (f ! 0) (g ! 0) x of Inl err \<Rightarrow> Inl err
        | Inr c \<Rightarrow>
            if c = ''>'' then Inr f
            else if c = ''<'' then Inr g
            else Inr (union_l K f g)))"

definition compare_body :: "kernel \<Rightarrow> engine \<Rightarrow> expr \<Rightarrow> expr \<Rightarrow> expr \<Rightarrow> error + string" where
  "compare_body K E a b x =
     (case limitinf_at E (k_div K (Ln a) (Ln b)) x of Inl err \<Rightarrow> Inl err
      | Inr c \<Rightarrow>
          Inr (if k_eq K c (Rational 0) then ''<''
               else if k_eq K c Infty then ''>''
               else ''=''))"

primrec at_depth :: "kernel \<Rightarrow> nat \<Rightarrow> engine" where
  "at_depth K 0 =
     \<lparr> limitinf_at = (\<lambda>e x. Inl RecursionLimitExceeded),
       mrvleadterm_at = (\<lambda>e x Omega. Inl RecursionLimitExceeded),
       rewrite_at = (\<lambda>e Omega x wsym. Inl RecursionLimitExceeded),
       mrv_at = (\<lambda>e x. Inl RecursionLimitExceeded),
       max_at = (\<lambda>f g x. Inl RecursionLimitExceeded),
       compare_at = (\<lambda>a b x. Inl RecursionLimitExceeded) \<rparr>"
| "at_depth K (Suc n) =
     \<lparr> limitinf_at = limitinf_body K n (at_depth K n),
       mrvleadterm_at = mrvleadterm_body K (at_depth K n),
       rewrite_at = rewrite_body K n (at_depth K n),
       mrv_at = mrv_body K (at_depth K n),
       max_at = max_body K (at_depth K n),
       compare_at = compare_body K (at_depth K n) \<rparr>"

definition limitinf :: "kernel \<Rightarrow> nat \<Rightarrow> expr \<Rightarrow> expr \<Rightarrow> error + expr" where
  "limitinf K n = limitinf_at (at_depth K n)"

definition mrvleadterm ::
  "kernel \<Rightarrow> nat \<Rightarrow> expr \<Rightarrow> expr \<Rightarrow> expr list option \<Rightarrow> error + (expr \<times> expr)" where
  "mrvleadterm K n = mrvleadterm_at (at_depth K n)"

definition rewrite ::
  "kernel \<Rightarrow> nat \<Rightarrow> expr \<Rightarrow> expr list \<Rightarrow> expr \<Rightarrow> expr \<Rightarrow> error + expr" where
  "rewrite K n = rewrite_at (at_depth K n)"

definition rewrite_pairs ::
  "kernel \<Rightarrow> nat \<Rightarrow> expr list \<Rightarrow> expr \<Rightarrow> expr \<Rightarrow> error + (expr \<times> expr) list" where
  "rewrite_pairs K n = rewrite_pairs_body K n (at_depth K n)"

definition mrv :: "kernel \<Rightarrow> nat \<Rightarrow> expr \<Rightarrow> expr \<Rightarrow> error + expr list" where
  "mrv K n = mrv_at (at_depth K n)"

definition max_mrv ::
  "kernel \<Rightarrow> nat \<Rightarrow> expr list \<Rightarrow> expr list \<Rightarrow> expr \<Rightarrow> error + expr list" where
  "max_mrv K n = max_at (at_depth K n)"

definition compare :: "kernel \<Rightarrow> nat \<Rightarrow> expr \<Rightarrow> expr \<Rightarrow> expr \<Rightarrow> error + string" where
  "compare K n = compare_at (at_depth K n)"

definition limit :: "kernel \<Rightarrow> nat \<Rightarrow> expr \<Rightarrow> expr \<Rightarrow> expr \<Rightarrow> error + expr" where
  "limit K n e z z0 =
     (let x = Symbol ''x'';
          e0 = k_subs K e z (k_add K z0 (k_div K (Rational 1) x))
      in limitinf K n e0 x)"

section \<open>A sample kernel\<close>

text \<open>
  Modelled from the spec: the expression kernel (the module \<^verbatim>\<open>sym\<close>: construction,
  canonical form, equality, substitution, differentiation, series) is not among the
  sources. \<open>sample_kernel\<close> is a small kernel in the sense of the spec's sections 3
  and 6, used only to run the functions of \<^verbatim>\<open>limits.py\<close> on concrete inputs: the
  overloaded operators build nodes as they are, \<open>sk_eval\<close> brings a tree to canonical
  form bottom-up (numbers combined, \<open>x\<cdot>1\<close>, \<open>x+0\<close>, \<open>x\<^sup>0\<close>, \<open>x\<^sup>1\<close> removed,
  \<open>a\<cdot>a\<^sup>-\<^sup>1\<close> and \<open>a - a\<close> cancelled, powers of powers merged, \<open>exp\<close> and \<open>ln\<close>
  cancelled against each other, \<open>ln\<close> of a product or power split), \<open>sk_subs\<close> is
  structural replacement, \<open>sk_diff\<close> the usual derivative built with the canonical
  constructors, equality is equality of trees, and \<open>sk_series\<close> returns an expression
  that already is a sum of monomials \<open>c\<cdot>x\<^sup>k\<close> and signals \<open>PoleError\<close> on anything else.
\<close>

definition sk_add :: "expr \<Rightarrow> expr \<Rightarrow> expr" where
  "sk_add a b =
     (case (a, b) of
        (Rational p, Rational q) \<Rightarrow> Rational (p + q)
      | _ \<Rightarrow>
        if a = Rational 0 then b
        else if b = Rational 0 then a
        else if b = Mul [Rational (- 1), a] then Rational 0
        else Add [a, b])"

definition sk_mul :: "expr \<Rightarrow> expr \<Rightarrow> expr" where
  "sk_mul a b =
     (case (a, b) of
        (Rational p, Rational q) \<Rightarrow> Rational (p * q)
      | _ \<Rightarrow>
        if a = Rational 0 \<or> b = Rational 0 then Rational 0
        else if a = Rational 1 then b
        else if b = Rational 1 then a
        else if b = Pow a (Rational (- 1)) then Rational 1
        else Mul [a, b])"

definition sk_pow :: "expr \<Rightarrow> expr \<Rightarrow> expr" where
  "sk_pow a b =
     (case b of
        Rational q \<Rightarrow>
          if q = 0 then Rational 1
          else if q = 1 then a
          else (case a of
              Pow a1 (Rational m) \<Rightarrow> if m * q = 1 then a1 else Pow a1 (Rational (m * q))
            | Rational p \<Rightarrow>
                if 0 \<le> q \<and> of_int \<lfloor>q\<rfloor> = q then Rational (p ^ nat \<lfloor>q\<rfloor>) else Pow a b
            | _ \<Rightarrow> Pow a b)
      | _ \<Rightarrow> Pow a b)"

definition sk_exp :: "expr \<Rightarrow> expr" where
  "sk_exp a =
     (case a of
        Rational q \<Rightarrow> if q = 0 then Rational 1 else Exp a
      | Ln u \<Rightarrow> u
      | _ \<Rightarrow> Exp a)"

fun sk_ln :: "expr \<Rightarrow> expr" where
  "sk_ln (Rational q) = (if q = 1 then Rational 0 else Ln (Rational q))"
| "sk_ln (Exp u) = u"
| "sk_ln (Mul [a, b]) = sk_add (sk_ln a) (sk_ln b)"
| "sk_ln (Pow a b) = sk_mul b (sk_ln a)"
| "sk_ln e = Ln e"

fun sk_eval :: "expr \<Rightarrow> expr" where
  "sk_eval (Add []) = Rational 0"
| "sk_eval (Add [a]) = sk_eval a"
| "sk_eval (Add (a # b # bs)) = sk_add (sk_eval a) (sk_eval (Add (b # bs)))"
| "sk_eval (Mul []) = Rational 1"
| "sk_eval (Mul [a]) = sk_eval a"
| "sk_eval (Mul (a # b # bs)) = sk_mul (sk_eval a) (sk_eval (Mul (b # bs)))"
| "sk_eval (Pow a b) = sk_pow (sk_eval a) (sk_eval b)"
| "sk_eval (Exp u) = sk_exp (sk_eval u)"
| "sk_eval (Ln u) = sk_ln (sk_eval u)"
| "sk_eval e = e"

fun sk_subs :: "expr \<Rightarrow> expr \<Rightarrow> expr \<Rightarrow> expr" where
  "sk_subs (Add ts) old new =
     (if Add ts = old then new else Add (map (\<lambda>t. sk_subs t old new) ts))"
| "sk_subs (Mul ts) old new =
     (if Mul ts = old then new else Mul (map (\<lambda>t. sk_subs t old new) ts))"
| "sk_subs (Pow a b) old new =
     (if Pow a b = old then new else Pow (sk_subs a old new) (sk_subs b old new))"
| "sk_subs (Exp u) old new = (if Exp u = old then new else Exp (sk_subs u old new))"
| "sk_subs (Ln u) old new = (if Ln u = old then new else Ln (sk_subs u old new))"
| "sk_subs e old new = (if e = old then new else e)"

definition sk_rest :: "expr list \<Rightarrow> expr" where
  "sk_rest ts = (case ts of [b] \<Rightarrow> b | _ \<Rightarrow> Mul ts)"

fun sk_diff :: "expr \<Rightarrow> expr \<Rightarrow> expr" where
  "sk_diff (Rational r) x = Rational 0"
| "sk_diff (Symbol s) x = (if Symbol s = x then Rational 1 else Rational 0)"
| "sk_diff (Add []) x = Rational 0"
| "sk_diff (Add [a]) x = sk_diff a x"
| "sk_diff (Add (a # b # bs)) x = sk_add (sk_diff a x) (sk_diff (Add (b # bs)) x)"
| "sk_diff (Mul []) x = Rational 0"
| "sk_diff (Mul [a]) x = sk_diff a x"
| "sk_diff (Mul (a # b # bs)) x =
     sk_add (sk_mul (sk_diff a x) (sk_rest (b # bs)))
            (sk_mul a (sk_diff (Mul (b # bs)) x))"
| "sk_diff (Pow a b) x =
     (case b of
        Rational r \<Rightarrow>
          sk_mul (sk_mul (Rational r) (sk_pow a (Rational (r - 1)))) (sk_diff a x)
      | _ \<Rightarrow>
          sk_mul (Pow a b)
            (sk_add (sk_mul (sk_diff b x) (sk_ln a))
                    (sk_mul (sk_mul b (sk_diff a x)) (sk_pow a (Rational (- 1))))))"
| "sk_diff (Exp u) x = sk_mul (Exp u) (sk_diff u x)"
| "sk_diff (Ln u) x = sk_mul (sk_pow u (Rational (- 1))) (sk_diff u x)"
| "sk_diff Infty x = Rational 0"

fun sk_getab :: "expr \<Rightarrow> expr \<times> expr" where
  "sk_getab (Mul [a, b]) = (a, b)"
| "sk_getab (Mul (a # b # c # cs)) = (a, Mul (b # c # cs))"
| "sk_getab (Mul [a]) = (a, Rational 1)"
| "sk_getab (Mul []) = (Rational 1, Rational 1)"
| "sk_getab (Add [a, b]) = (a, b)"
| "sk_getab (Add (a # b # c # cs)) = (a, Add (b # c # cs))"
| "sk_getab (Add [a]) = (a, Rational 0)"
| "sk_getab (Add []) = (Rational 0, Rational 0)"
| "sk_getab e = (e, e)"

definition sk_lt :: "expr \<Rightarrow> expr \<Rightarrow> bool" where
  "sk_lt a b = (case (a, b) of (Rational p, Rational q) \<Rightarrow> p < q | _ \<Rightarrow> False)"

definition sk_power_of :: "expr \<Rightarrow> expr \<Rightarrow> bool" where
  "sk_power_of x t = (t = x \<or> (case t of Pow a (Rational r) \<Rightarrow> a = x | _ \<Rightarrow> False))"

definition sk_factor :: "expr \<Rightarrow> expr \<Rightarrow> bool" where
  "sk_factor x t = (sk_diff t x = Rational 0 \<or> sk_power_of x t)"

definition sk_monomial :: "expr \<Rightarrow> expr \<Rightarrow> bool" where
  "sk_monomial x t =
     (sk_factor x t \<or> (case t of Mul ts \<Rightarrow> list_all (sk_factor x) ts | _ \<Rightarrow> False))"

definition sk_series :: "expr \<Rightarrow> expr \<Rightarrow> nat \<Rightarrow> error + expr" where
  "sk_series f x n =
     (let g = sk_eval f in
      if sk_monomial x g \<or> (case g of Add ts \<Rightarrow> list_all (sk_monomial x) ts | _ \<Rightarrow> False)
      then Inr g else Inl PoleError)"

definition sample_kernel :: kernel where
  "sample_kernel =
     \<lparr> k_eval = sk_eval, k_subs = sk_subs, k_diff = sk_diff,
       k_isequal = (\<lambda>a b. a = b), k_eq = (\<lambda>a b. a = b), k_lt = sk_lt,
       k_series = sk_series, k_getab = sk_getab,
       k_add = (\<lambda>a b. Add [a, b]),
       k_sub = (\<lambda>a b. Add [a, Mul [Rational (- 1), b]]),
       k_mul = (\<lambda>a b. Mul [a, b]),
       k_div = (\<lambda>a b. Mul [a, Pow b (Rational (- 1))]),
       k_pow = Pow \<rparr>"

section \<open>Notions used in the statements\<close>

text \<open>
  A list has no duplicates, in the sense of the module's own \<^verbatim>\<open>member\<close>, when no
  element is a member of the elements before it.
\<close>

fun no_dups_from :: "kernel \<Rightarrow> expr list \<Rightarrow> expr list \<Rightarrow> bool" where
  "no_dups_from K seen [] = True"
| "no_dups_from K seen (y # ys) = (\<not> member K y seen \<and> no_dups_from K (seen @ [y]) ys)"

definition no_dups :: "kernel \<Rightarrow> expr list \<Rightarrow> bool" where
  "no_dups K xs = no_dups_from K [] xs"


text \<open>\<open>occurs t e\<close>: the expression \<open>t\<close> is a subterm of \<open>e\<close>.\<close>

fun occurs :: "expr \<Rightarrow> expr \<Rightarrow> bool" where
  "occurs t (Add ts) = (t = Add ts \<or> list_ex (occurs t) ts)"
| "occurs t (Mul ts) = (t = Mul ts \<or> list_ex (occurs t) ts)"
| "occurs t (Pow a b) = (t = Pow a b \<or> occurs t a \<or> occurs t b)"
| "occurs t (Exp u) = (t = Exp u \<or> occurs t u)"
| "occurs t (Ln u) = (t = Ln u \<or> occurs t u)"
| "occurs t e = (t = e)"

text \<open>
  The size by which \<^verbatim>\<open>rewrite\<close> sorts: the length of \<^verbatim>\<open>mrv(t, x)\<close>.
\<close>

definition mrv_size :: "kernel \<Rightarrow> nat \<Rightarrow> expr \<Rightarrow> expr \<Rightarrow> nat" where
  "mrv_size K n x t = (case mrv K n t x of Inl err \<Rightarrow> 0 | Inr m \<Rightarrow> length m)"

text \<open>
  \<open>replacement K n x garg v f b\<close>: \<open>b\<close> is the expression that the spec's step 4
  prescribes for \<open>f = exp(u)\<close>, namely \<open>exp(u - c\<cdot>arg(g))\<cdot>v\<^sup>c\<close> in canonical form, where
  \<open>(c, 0) = mrvleadterm(u/arg(g), x)\<close>.
\<close>

definition replacement ::
  "kernel \<Rightarrow> nat \<Rightarrow> expr \<Rightarrow> expr \<Rightarrow> expr \<Rightarrow> expr \<Rightarrow> expr \<Rightarrow> bool" where
  "replacement K n x garg v f b =
     (\<exists>u c e0. f = Exp u
        \<and> mrvleadterm K n (k_div K u garg) x None = Inr (c, e0)
        \<and> k_eq K e0 (Rational 0)
        \<and> b = k_eval K (k_mul K (Exp (k_sub K u (k_mul K c garg))) (k_pow K v c)))"


section \<open>The functions in the shape of the source\<close>

lemma limitinf_0 [code]: "limitinf K 0 e x = Inl RecursionLimitExceeded"
  by (simp add: limitinf_def)

lemma limitinf_Suc [code]:
  "limitinf K (Suc n) e x =
     (if \<not> has K e x then Inr e
      else (case mrvleadterm K n e x None of Inl err \<Rightarrow> Inl err
        | Inr (c0, e0) \<Rightarrow>
          (case sign K n e0 x of Inl err \<Rightarrow> Inl err
           | Inr sig \<Rightarrow>
               if sig = 1 then Inr (Rational 0)
               else if sig = - 1 then Inr Infty
               else if sig = 0 then limitinf K n c0 x
               else Inl ReturnedNone)))"
  unfolding limitinf_def mrvleadterm_def
  by (simp add: limitinf_body_def)

lemma mrvleadterm_0 [code]: "mrvleadterm K 0 e x Omega = Inl RecursionLimitExceeded"
  by (simp add: mrvleadterm_def)

lemma mrvleadterm_Suc [code]:
  "mrvleadterm K (Suc n) e x Omega =
     (let e1 = k_eval K e in
      if \<not> has K e1 x then Inr (e1, Rational 0)
      else (case if_none Omega (mrv K n e1 x) of
          Inl err \<Rightarrow> Inl err
        | Inr Om \<Rightarrow>
            if member K x Om then
              (case mrvleadterm K n (moveup K [e1] x ! 0) x (Some (moveup K Om x)) of
                 Inl err \<Rightarrow> Inl err
               | Inr (c0, e0) \<Rightarrow>
                   (let r = movedown K [c0, e0] x in Inr (r ! 0, r ! 1)))
            else (case rewrite K n e1 Om x (Symbol ''w'') of Inl err \<Rightarrow> Inl err
               | Inr f \<Rightarrow> leadterm K f (Symbol ''w''))))"
  unfolding mrvleadterm_def mrv_def rewrite_def
  by (simp add: mrvleadterm_body_def)

lemma rewrite_0 [code]: "rewrite K 0 e Omega x wsym = Inl RecursionLimitExceeded"
  by (simp add: rewrite_def)

lemma rewrite_pairs_eq [code]:
  "rewrite_pairs K n Omega x wsym =
     (case rewrite_entry Omega of Inl err \<Rightarrow> Inl err
      | Inr u \<Rightarrow>
        (case rewrite_keys (mrv K n) Omega x of Inl err \<Rightarrow> Inl err
         | Inr ks \<Rightarrow>
           (let Om = sort_by_keys Omega ks in
            case last Om of
              Exp garg \<Rightarrow>
                (case sign K n garg x of Inl err \<Rightarrow> Inl err
                 | Inr sg \<Rightarrow>
                   (let w = (if sg = 1 then k_div K (Rational 1) wsym else wsym) in
                    case mapE (rewrite_term K (mrvleadterm K n) garg x w) Om of
                      Inl err \<Rightarrow> Inl err
                    | Inr O2 \<Rightarrow> Inr (zip Om O2)))
            | _ \<Rightarrow> Inl AttributeError)))"
  unfolding rewrite_pairs_def mrv_def mrvleadterm_def
  by (simp add: rewrite_pairs_body_def)

lemma rewrite_Suc [code]:
  "rewrite K (Suc n) e Omega x wsym =
     (case rewrite_pairs K n Omega x wsym of Inl err \<Rightarrow> Inl err
      | Inr ps \<Rightarrow> Inr (subs_all K e ps))"
  unfolding rewrite_def rewrite_pairs_def
  by (simp add: rewrite_body_def)

lemma mrv_0 [code]: "mrv K 0 e x = Inl RecursionLimitExceeded"
  by (simp add: mrv_def)

lemma mrv_Suc [code]:
  "mrv K (Suc n) e x =
     (if \<not> has K e x then Inr []
      else if k_eq K e x then Inr [x]
      else (case e of
          Mul args \<Rightarrow>
            (case k_getab K e of (a, b) \<Rightarrow>
              (case mrv K n a x of Inl err \<Rightarrow> Inl err
               | Inr ma \<Rightarrow>
                 (case mrv K n b x of Inl err \<Rightarrow> Inl err
                  | Inr mb \<Rightarrow> max_mrv K n ma mb x)))
        | Add args \<Rightarrow>
            (case k_getab K e of (a, b) \<Rightarrow>
              (case mrv K n a x of Inl err \<Rightarrow> Inl err
               | Inr ma \<Rightarrow>
                 (case mrv K n b x of Inl err \<Rightarrow> Inl err
                  | Inr mb \<Rightarrow> max_mrv K n ma mb x)))
        | Pow a b \<Rightarrow>
            (case b of Rational r \<Rightarrow> mrv K n a x | _ \<Rightarrow> Inl (UnimplementedInMrv e))
        | Ln u \<Rightarrow> mrv K n u x
        | Exp u \<Rightarrow>
            (case limitinf K n u x of Inl err \<Rightarrow> Inl err
             | Inr l \<Rightarrow>
                 if k_eq K l Infty then
                   (case mrv K n u x of Inl err \<Rightarrow> Inl err
                    | Inr mu \<Rightarrow> max_mrv K n [e] mu x)
                 else mrv K n u x)
        | _ \<Rightarrow> Inl (UnimplementedInMrv e)))"
  unfolding mrv_def max_mrv_def limitinf_def
  by (simp add: mrv_body_def)

lemma max_mrv_0 [code]: "max_mrv K 0 f g x = Inl RecursionLimitExceeded"
  by (simp add: max_mrv_def)

lemma max_mrv_Suc [code]:
  "max_mrv K (Suc n) f g x =
     (if f = [] then Inr g
      else if g = [] then Inr f
      else if intersect K f g then Inr (union_l K f g)
      else if member K x f then Inr g
      else if member K x g then Inr f
      else (case compare K n (f ! 0) (g ! 0) x of Inl err \<Rightarrow> Inl err
        | Inr c \<Rightarrow>
            if c = ''>'' then Inr f
            else if c = ''<'' then Inr g
            else Inr (union_l K f g)))"
  unfolding max_mrv_def compare_def
  by (simp add: max_body_def)

lemma compare_0 [code]: "compare K 0 a b x = Inl RecursionLimitExceeded"
  by (simp add: compare_def)

lemma compare_Suc [code]:
  "compare K (Suc n) a b x =
     (case limitinf K n (k_div K (Ln a) (Ln b)) x of Inl err \<Rightarrow> Inl err
      | Inr c \<Rightarrow>
          Inr (if k_eq K c (Rational 0) then ''<''
               else if k_eq K c Infty then ''>''
               else ''=''))"
  unfolding compare_def limitinf_def
  by (simp add: compare_body_def)

section \<open>The sign oracle\<close>

text \<open>
  Claim C6. \<^verbatim>\<open>sign(e, x)\<close> tries its rules in order. A rational constant gives its
  arithmetic sign; then an expression equal to \<open>x\<close> gives \<open>+1\<close>; then a product gives
  the product of the signs of the two parts that \<^verbatim>\<open>getab\<close> returns; then \<open>exp(u)\<close>
  gives \<open>+1\<close>; then a power whose base has sign \<open>+1\<close> gives \<open>+1\<close>. Everything else
  is an error and no value: a power whose base has another sign, a power whose base
  has no sign (that error is passed on), a symbol other than \<open>x\<close>, a sum, a logarithm,
  the infinity constant.
\<close>

theorem sign_rules:
  "sign K (Suc n) (Rational r) x = Inr (if 0 < r then 1 else if r = 0 then 0 else - 1)
   \<and> ((\<forall>q. e \<noteq> Rational q) \<and> k_eq K e x \<longrightarrow> sign K (Suc n) e x = Inr 1)
   \<and> (\<not> k_eq K (Mul ts) x \<longrightarrow>
        sign K (Suc n) (Mul ts) x =
          (case sign K n (fst (k_getab K (Mul ts))) x of Inl err \<Rightarrow> Inl err
           | Inr sa \<Rightarrow>
               (case sign K n (snd (k_getab K (Mul ts))) x of Inl err \<Rightarrow> Inl err
                | Inr sb \<Rightarrow> Inr (sa * sb))))
   \<and> (\<not> k_eq K (Exp u) x \<longrightarrow> sign K (Suc n) (Exp u) x = Inr 1)
   \<and> (\<not> k_eq K (Pow a b) x \<and> sign K n a x = Inr 1 \<longrightarrow> sign K (Suc n) (Pow a b) x = Inr 1)
   \<and> (\<not> k_eq K (Pow a1 b1) x \<and> sign K n a1 x = Inr s \<and> s \<noteq> 1 \<longrightarrow>
        sign K (Suc n) (Pow a1 b1) x = Inl (CannotDetermineSign (Pow a1 b1)))
   \<and> (\<not> k_eq K (Pow a2 b2) x \<and> sign K n a2 x = Inl err \<longrightarrow>
        sign K (Suc n) (Pow a2 b2) x = Inl err)
   \<and> (\<not> k_eq K e1 x \<and>
        (case e1 of Symbol nm \<Rightarrow> True | Add as \<Rightarrow> True | Ln v \<Rightarrow> True | Infty \<Rightarrow> True
         | _ \<Rightarrow> False) \<longrightarrow>
        sign K (Suc n) e1 x = Inl (CannotDetermineSign e1))"
  by (cases e; cases e1) (simp_all add: number_sign_def split: prod.splits sum.splits)

theorem sign_rules_witness:
  "sign sample_kernel (Suc (Suc 0)) (Rational (- 3)) (Symbol ''x'') = Inr (- 1)
   \<and> (\<forall>q. Symbol ''x'' \<noteq> Rational q) \<and> k_eq sample_kernel (Symbol ''x'') (Symbol ''x'')
   \<and> sign sample_kernel (Suc (Suc 0)) (Symbol ''x'') (Symbol ''x'') = Inr 1
   \<and> \<not> k_eq sample_kernel (Mul [Rational (- 1), Symbol ''x'']) (Symbol ''x'')
   \<and> sign sample_kernel (Suc (Suc 0)) (Mul [Rational (- 1), Symbol ''x'']) (Symbol ''x'')
       = Inr (- 1)
   \<and> \<not> k_eq sample_kernel (Exp (Symbol ''x'')) (Symbol ''x'')
   \<and> sign sample_kernel (Suc (Suc 0)) (Exp (Symbol ''x'')) (Symbol ''x'') = Inr 1
   \<and> \<not> k_eq sample_kernel (Pow (Symbol ''x'') (Rational 2)) (Symbol ''x'')
   \<and> sign sample_kernel (Suc 0) (Symbol ''x'') (Symbol ''x'') = Inr 1
   \<and> sign sample_kernel (Suc (Suc 0)) (Pow (Symbol ''x'') (Rational 2)) (Symbol ''x'') = Inr 1
   \<and> \<not> k_eq sample_kernel (Pow (Rational (- 2)) (Rational 3)) (Symbol ''x'')
   \<and> sign sample_kernel (Suc 0) (Rational (- 2)) (Symbol ''x'') = Inr (- 1)
   \<and> sign sample_kernel (Suc (Suc 0)) (Pow (Rational (- 2)) (Rational 3)) (Symbol ''x'')
       = Inl (CannotDetermineSign (Pow (Rational (- 2)) (Rational 3)))
   \<and> \<not> k_eq sample_kernel (Pow (Symbol ''y'') (Rational 2)) (Symbol ''x'')
   \<and> sign sample_kernel (Suc 0) (Symbol ''y'') (Symbol ''x'')
       = Inl (CannotDetermineSign (Symbol ''y''))
   \<and> sign sample_kernel (Suc (Suc 0)) (Pow (Symbol ''y'') (Rational 2)) (Symbol ''x'')
       = Inl (CannotDetermineSign (Symbol ''y''))
   \<and> \<not> k_eq sample_kernel (Ln (Symbol ''x'')) (Symbol ''x'')
   \<and> sign sample_kernel (Suc (Suc 0)) (Ln (Symbol ''x'')) (Symbol ''x'')
       = Inl (CannotDetermineSign (Ln (Symbol ''x'')))"
  using sign_rules [where K = sample_kernel and n = "Suc 0" and x = "Symbol ''x''"
      and r = "- 3" and e = "Symbol ''x''" and ts = "[Rational (- 1), Symbol ''x'']"
      and u = "Symbol ''x''" and a = "Symbol ''x''" and b = "Rational 2"
      and ?a1.0 = "Rational (- 2)" and ?b1.0 = "Rational 3" and s = "- 1"
      and ?a2.0 = "Symbol ''y''" and ?b2.0 = "Rational 2"
      and err = "CannotDetermineSign (Symbol ''y'')" and ?e1.0 = "Ln (Symbol ''x'')"]
  by (simp add: sample_kernel_def number_sign_def)

section \<open>The list returned by mrv\<close>

lemma member_iff: "member K y zs \<longleftrightarrow> (\<exists>z\<in>set zs. k_eq K y z)"
  by (simp add: member_def list_ex_iff)

lemma no_dups_from_mono:
  "no_dups_from K seen ys \<Longrightarrow> set seen' \<subseteq> set seen \<Longrightarrow> no_dups_from K seen' ys"
proof (induction ys arbitrary: seen seen')
  case Nil
  then show ?case by simp
next
  case (Cons y ys)
  from Cons.prems have "\<not> member K y seen'" by (auto simp: member_iff)
  moreover have "no_dups_from K (seen' @ [y]) ys"
    using Cons.IH [of "seen @ [y]" "seen' @ [y]"] Cons.prems by auto
  ultimately show ?case by simp
qed

lemma no_dups_from_union:
  "no_dups_from K s b \<Longrightarrow> no_dups_from K (a @ s) (filter (\<lambda>y. \<not> member K y a) b)"
proof (induction b arbitrary: s)
  case Nil
  then show ?case by simp
next
  case (Cons y ys)
  show ?case
  proof (cases "member K y a")
    case True
    have "no_dups_from K s ys"
      using Cons.prems no_dups_from_mono [of K "s @ [y]" ys s] by auto
    with True Cons.IH show ?thesis by simp
  next
    case False
    with Cons.prems have "\<not> member K y (a @ s)" by (auto simp: member_iff)
    moreover have "no_dups_from K ((a @ s) @ [y]) (filter (\<lambda>y. \<not> member K y a) ys)"
      using Cons.IH [of "s @ [y]"] Cons.prems by simp
    ultimately show ?thesis using False by simp
  qed
qed

lemma no_dups_from_append:
  "no_dups_from K s (xs @ ys) \<longleftrightarrow> no_dups_from K s xs \<and> no_dups_from K (s @ xs) ys"
  by (induction xs arbitrary: s) auto

lemma no_dups_union: "no_dups K a \<Longrightarrow> no_dups K b \<Longrightarrow> no_dups K (union_l K a b)"
  using no_dups_from_union [of K "[]" b a]
  by (simp add: no_dups_def union_l_def no_dups_from_append)

lemma no_dups_max:
  "max_mrv K n f g x = Inr r \<Longrightarrow> no_dups K f \<Longrightarrow> no_dups K g \<Longrightarrow> no_dups K r"
  by (cases n) (auto simp: max_mrv_0 max_mrv_Suc no_dups_union split: if_splits sum.splits)

lemma no_dups_single: "no_dups K [y]"
  by (simp add: no_dups_def member_def)

lemma no_dups_distinct:
  "(\<And>a b. k_eq K a b = (a = b)) \<Longrightarrow> no_dups_from K s xs \<longleftrightarrow> distinct xs \<and> set s \<inter> set xs = {}"
  by (induction xs arbitrary: s) (auto simp: member_iff)

text \<open>
  Claim C9. The list that \<^verbatim>\<open>mrv(e, x)\<close> returns has no duplicates: no element is
  equal, by the kernel's \<^verbatim>\<open>==\<close>, to an element before it. The base cases return
  \<^verbatim>\<open>[]\<close>, \<^verbatim>\<open>[x]\<close> or \<^verbatim>\<open>[e]\<close>, \<^verbatim>\<open>max\<close> returns one of its arguments or
  their \<^verbatim>\<open>union\<close>, and \<^verbatim>\<open>union(a, b)\<close> appends to \<^verbatim>\<open>a\<close> only the elements of
  \<^verbatim>\<open>b\<close> that are not members of \<^verbatim>\<open>a\<close>. When \<^verbatim>\<open>==\<close> is equality of trees the
  list is \<open>distinct\<close>.
\<close>

theorem mrv_no_duplicates:
  "mrv K n e x = Inr ms \<Longrightarrow>
     no_dups K ms \<and> ((\<forall>a b. k_eq K a b = (a = b)) \<longrightarrow> distinct ms)"
proof -
  assume r: "mrv K n e x = Inr ms"
  have "no_dups K ms" using r
  proof (induction n arbitrary: e ms)
    case 0
    then show ?case by (simp add: mrv_0)
  next
    case (Suc n)
    show ?case
    proof (cases "has K e x \<and> \<not> k_eq K e x")
      case False
      with Suc.prems show ?thesis
        by (auto simp: mrv_Suc no_dups_def member_def split: if_splits)
    next
      case True
      with Suc.prems show ?thesis
        by (cases e)
          (auto simp: mrv_Suc no_dups_single split: prod.splits sum.splits expr.splits if_splits
            dest: Suc.IH intro: no_dups_max)
    qed
  qed
  then show ?thesis
    using no_dups_distinct [of K "[]" ms] by (auto simp: no_dups_def)
qed

theorem mrv_no_duplicates_witness:
  "mrv sample_kernel 14 (Add [Exp (Symbol ''x''), Mul [Exp (Symbol ''x''), Symbol ''x'']])
       (Symbol ''x'') = Inr [Exp (Symbol ''x'')]
   \<and> no_dups sample_kernel [Exp (Symbol ''x'')]
   \<and> (\<forall>a b. k_eq sample_kernel a b = (a = b))
   \<and> distinct [Exp (Symbol ''x'')]"
proof -
  have r: "mrv sample_kernel 14
             (Add [Exp (Symbol ''x''), Mul [Exp (Symbol ''x''), Symbol ''x'']]) (Symbol ''x'')
           = Inr [Exp (Symbol ''x'')]"
    by code_simp
  have eq: "\<forall>a b. k_eq sample_kernel a b = (a = b)"
    by (simp add: sample_kernel_def)
  show ?thesis
    using mrv_no_duplicates [OF r] r eq by simp
qed






















section \<open>The limit driver\<close>

text \<open>
  Claim C2, as the code has it. When \<open>e\<close> depends on \<open>x\<close>, \<^verbatim>\<open>limitinf(e, x)\<close> takes
  \<open>(c0, e0) = mrvleadterm(e, x)\<close> and returns \<open>0\<close> when \<open>sign(e0, x) = +1\<close> and
  \<^verbatim>\<open>limitinf(c0, x)\<close> when \<open>sign(e0, x) = 0\<close>. When \<open>sign(e0, x) = -1\<close> it returns
  the constant \<^verbatim>\<open>s.infty\<close>, the module's one infinity (\<open>+-infty\<close> in its docstring),
  whatever \<open>c0\<close> is: the sign of \<open>c0\<close> is not asked for and the value carries no sign.
\<close>

theorem limitinf_by_sign:
  "has K e x \<Longrightarrow> mrvleadterm K n e x None = Inr (c0, e0) \<Longrightarrow>
     (sign K n e0 x = Inr 1 \<longrightarrow> limitinf K (Suc n) e x = Inr (Rational 0))
   \<and> (sign K n e0 x = Inr (- 1) \<longrightarrow> limitinf K (Suc n) e x = Inr Infty)
   \<and> (sign K n e0 x = Inr 0 \<longrightarrow> limitinf K (Suc n) e x = limitinf K n c0 x)"
  by (simp add: limitinf_Suc)

theorem limitinf_by_sign_witness:
  "has sample_kernel (Mul [Rational (- 1), Symbol ''x'']) (Symbol ''x'')
   \<and> mrvleadterm sample_kernel 8 (Mul [Rational (- 1), Symbol ''x'']) (Symbol ''x'') None
       = Inr (Rational (- 1), Rational (- 1))
   \<and> sign sample_kernel 8 (Rational (- 1)) (Symbol ''x'') = Inr (- 1)
   \<and> limitinf sample_kernel (Suc 8) (Mul [Rational (- 1), Symbol ''x'']) (Symbol ''x'') = Inr Infty
   \<and> limitinf sample_kernel (Suc 8) (Symbol ''x'') (Symbol ''x'') = Inr Infty
   \<and> has sample_kernel (Pow (Symbol ''x'') (Rational (- 1))) (Symbol ''x'')
   \<and> mrvleadterm sample_kernel 8 (Pow (Symbol ''x'') (Rational (- 1))) (Symbol ''x'') None
       = Inr (Rational 1, Rational 1)
   \<and> sign sample_kernel 8 (Rational 1) (Symbol ''x'') = Inr 1
   \<and> limitinf sample_kernel (Suc 8) (Pow (Symbol ''x'') (Rational (- 1))) (Symbol ''x'')
       = Inr (Rational 0)
   \<and> has sample_kernel (Add [Rational 1, Pow (Symbol ''x'') (Rational (- 1))]) (Symbol ''x'')
   \<and> mrvleadterm sample_kernel 8 (Add [Rational 1, Pow (Symbol ''x'') (Rational (- 1))])
        (Symbol ''x'') None = Inr (Rational 1, Rational 0)
   \<and> sign sample_kernel 8 (Rational 0) (Symbol ''x'') = Inr 0
   \<and> limitinf sample_kernel (Suc 8) (Add [Rational 1, Pow (Symbol ''x'') (Rational (- 1))])
        (Symbol ''x'') = Inr (Rational 1)"
proof -
  have h1: "has sample_kernel (Mul [Rational (- 1), Symbol ''x'']) (Symbol ''x'')"
    and m1: "mrvleadterm sample_kernel 8 (Mul [Rational (- 1), Symbol ''x'']) (Symbol ''x'') None
       = Inr (Rational (- 1), Rational (- 1))"
    and s1: "sign sample_kernel 8 (Rational (- 1)) (Symbol ''x'') = Inr (- 1)"
    and x1: "limitinf sample_kernel (Suc 8) (Symbol ''x'') (Symbol ''x'') = Inr Infty"
    by code_simp+
  have h2: "has sample_kernel (Pow (Symbol ''x'') (Rational (- 1))) (Symbol ''x'')"
    and m2: "mrvleadterm sample_kernel 8 (Pow (Symbol ''x'') (Rational (- 1))) (Symbol ''x'') None
       = Inr (Rational 1, Rational 1)"
    and s2: "sign sample_kernel 8 (Rational 1) (Symbol ''x'') = Inr 1"
    by code_simp+
  have h3: "has sample_kernel (Add [Rational 1, Pow (Symbol ''x'') (Rational (- 1))]) (Symbol ''x'')"
    and m3: "mrvleadterm sample_kernel 8 (Add [Rational 1, Pow (Symbol ''x'') (Rational (- 1))])
        (Symbol ''x'') None = Inr (Rational 1, Rational 0)"
    and s3: "sign sample_kernel 8 (Rational 0) (Symbol ''x'') = Inr 0"
    and l3: "limitinf sample_kernel 8 (Rational 1) (Symbol ''x'') = Inr (Rational 1)"
    by code_simp+
  show ?thesis
    using limitinf_by_sign [OF h1 m1] limitinf_by_sign [OF h2 m2] limitinf_by_sign [OF h3 m3]
      h1 m1 s1 x1 h2 m2 s2 h3 m3 s3 l3
    by simp
qed

text \<open>
  Claim C2 as stated, an infinity carrying the sign of \<open>c0\<close> when \<open>sign(e0, x) = -1\<close>, fails.
  At \<open>e = -x\<close> the leading term is \<open>(c0, e0) = (-1, -1)\<close>, the sign of \<open>c0\<close> is decidable and
  is \<open>-1\<close>, and the value is the same \<^verbatim>\<open>s.infty\<close> as at \<open>e = x\<close>, where \<open>(c0, e0) = (1, -1)\<close>
  and the sign of \<open>c0\<close> is \<open>+1\<close>.
\<close>

theorem limitinf_unsigned_counterexample:
  "has sample_kernel (Mul [Rational (- 1), Symbol ''x'']) (Symbol ''x'')
   \<and> mrvleadterm sample_kernel 8 (Mul [Rational (- 1), Symbol ''x'']) (Symbol ''x'') None
       = Inr (Rational (- 1), Rational (- 1))
   \<and> sign sample_kernel 8 (Rational (- 1)) (Symbol ''x'') = Inr (- 1)
   \<and> limitinf sample_kernel (Suc 8) (Mul [Rational (- 1), Symbol ''x'']) (Symbol ''x'') = Inr Infty
   \<and> has sample_kernel (Symbol ''x'') (Symbol ''x'')
   \<and> mrvleadterm sample_kernel 8 (Symbol ''x'') (Symbol ''x'') None
       = Inr (Rational 1, Rational (- 1))
   \<and> sign sample_kernel 8 (Rational 1) (Symbol ''x'') = Inr 1
   \<and> limitinf sample_kernel (Suc 8) (Symbol ''x'') (Symbol ''x'') = Inr Infty"
  by code_simp

text \<open>
  Claim C1, as the code has it. \<^verbatim>\<open>limit(e, z, z0)\<close> substitutes \<open>z0 + 1/x\<close> for
  \<open>z\<close>, with \<open>x\<close> the symbol named \<^verbatim>\<open>x\<close>, and returns \<^verbatim>\<open>limitinf\<close> of the result,
  for every \<open>z0\<close>; there is no separate case for \<open>z0 = \<infinity>\<close>.
\<close>

theorem limit_substitutes:
  "limit K n e z z0 =
     limitinf K n (k_subs K e z (k_add K z0 (k_div K (Rational 1) (Symbol ''x''))))
       (Symbol ''x'')
   \<and> limit K n e z Infty =
     limitinf K n (k_subs K e z (k_add K Infty (k_div K (Rational 1) (Symbol ''x''))))
       (Symbol ''x'')"
  by (simp add: limit_def Let_def)

text \<open>
  Claim C1 as stated, \<open>limit(e, x, \<infinity>) = limitinf(e, x)\<close>, fails. With the sample kernel,
  \<open>limit(1/x, x, \<infinity>)\<close> is \<^verbatim>\<open>limitinf\<close> of \<open>1/(\<infinity> + 1/x)\<close>, for which the series
  expansion fails, while \<open>limitinf(1/x, x) = 0\<close>; and \<open>limit(x, z, \<infinity>)\<close> is
  \<open>limitinf(x, x) = \<infinity>\<close>, while \<open>limitinf(x, z) = x\<close>.
\<close>

theorem limit_at_infinity_counterexample:
  "limit sample_kernel 14 (Pow (Symbol ''x'') (Rational (- 1))) (Symbol ''x'') Infty
     = Inl PoleError
   \<and> limitinf sample_kernel 14 (Pow (Symbol ''x'') (Rational (- 1))) (Symbol ''x'')
     = Inr (Rational 0)
   \<and> limit sample_kernel 14 (Symbol ''x'') (Symbol ''z'') Infty = Inr Infty
   \<and> limitinf sample_kernel 14 (Symbol ''x'') (Symbol ''z'') = Inr (Symbol ''x'')"
  by code_simp

text \<open>
  Claim C8, as the code has it. \<^verbatim>\<open>mrvleadterm\<close> passes to \<^verbatim>\<open>rewrite\<close>, and then to
  \<^verbatim>\<open>leadterm\<close>, the symbol named \<^verbatim>\<open>w\<close>, and \<^verbatim>\<open>limit\<close> substitutes with the symbol
  named \<^verbatim>\<open>x\<close>: the same two symbols in every call, whatever the expression contains,
  and no counter.
\<close>

theorem fixed_symbols:
  "(has K (k_eval K e) x \<and> if_none Omega (mrv K n (k_eval K e) x) = Inr Om
      \<and> \<not> member K x Om \<longrightarrow>
     mrvleadterm K (Suc n) e x Omega =
       (case rewrite K n (k_eval K e) Om x (Symbol ''w'') of Inl err \<Rightarrow> Inl err
        | Inr f \<Rightarrow> leadterm K f (Symbol ''w'')))
   \<and> limit K n e z z0 =
       limitinf K n (k_subs K e z (k_add K z0 (k_div K (Rational 1) (Symbol ''x''))))
         (Symbol ''x'')"
  by (simp add: mrvleadterm_Suc limit_def Let_def)

theorem fixed_symbols_witness:
  "has sample_kernel (k_eval sample_kernel (Exp (Symbol ''x''))) (Symbol ''x'')
   \<and> if_none None (mrv sample_kernel 8 (k_eval sample_kernel (Exp (Symbol ''x''))) (Symbol ''x''))
       = Inr [Exp (Symbol ''x'')]
   \<and> \<not> member sample_kernel (Symbol ''x'') [Exp (Symbol ''x'')]
   \<and> rewrite sample_kernel 8 (k_eval sample_kernel (Exp (Symbol ''x''))) [Exp (Symbol ''x'')]
        (Symbol ''x'') (Symbol ''w'') = Inr (Pow (Symbol ''w'') (Rational (- 1)))
   \<and> mrvleadterm sample_kernel (Suc 8) (Exp (Symbol ''x'')) (Symbol ''x'') None
       = leadterm sample_kernel (Pow (Symbol ''w'') (Rational (- 1))) (Symbol ''w'')"
proof -
  have a: "has sample_kernel (k_eval sample_kernel (Exp (Symbol ''x''))) (Symbol ''x'')"
    and b: "if_none None
              (mrv sample_kernel 8 (k_eval sample_kernel (Exp (Symbol ''x''))) (Symbol ''x''))
            = Inr [Exp (Symbol ''x'')]"
    and c: "\<not> member sample_kernel (Symbol ''x'') [Exp (Symbol ''x'')]"
    and d: "rewrite sample_kernel 8 (k_eval sample_kernel (Exp (Symbol ''x'')))
              [Exp (Symbol ''x'')] (Symbol ''x'') (Symbol ''w'')
            = Inr (Pow (Symbol ''w'') (Rational (- 1)))"
    by code_simp+
  show ?thesis
    using fixed_symbols [where K = sample_kernel and n = 8 and e = "Exp (Symbol ''x'')"
        and x = "Symbol ''x''" and Omega = None and Om = "[Exp (Symbol ''x'')]"] a b c d
    by simp
qed

text \<open>
  Claim C8 as stated fails: the symbol \<^verbatim>\<open>w\<close> of \<^verbatim>\<open>mrvleadterm\<close> collides with a
  symbol \<^verbatim>\<open>w\<close> of the expression. With the sample kernel \<open>limitinf(exp(-x)/w, x)\<close>
  is \<open>1\<close>, and \<open>0\<close> when the same parameter is named \<^verbatim>\<open>v\<close>; and
  \<open>limit(x, z, 0)\<close> is \<open>\<infinity>\<close> for the constant \<open>x\<close>, where \<open>limit(y, z, 0) = y\<close>.
\<close>

theorem fresh_symbol_counterexample:
  "occurs (Symbol ''w'')
     (Mul [Exp (Mul [Rational (- 1), Symbol ''x'']), Pow (Symbol ''w'') (Rational (- 1))])
   \<and> limitinf sample_kernel 14
       (Mul [Exp (Mul [Rational (- 1), Symbol ''x'']), Pow (Symbol ''w'') (Rational (- 1))])
       (Symbol ''x'') = Inr (Rational 1)
   \<and> limitinf sample_kernel 14
       (Mul [Exp (Mul [Rational (- 1), Symbol ''x'']), Pow (Symbol ''v'') (Rational (- 1))])
       (Symbol ''x'') = Inr (Rational 0)
   \<and> limit sample_kernel 14 (Symbol ''x'') (Symbol ''z'') (Rational 0) = Inr Infty
   \<and> limit sample_kernel 14 (Symbol ''y'') (Symbol ''z'') (Rational 0) = Inr (Symbol ''y'')"
  by code_simp

section \<open>The rewriter\<close>

text \<open>
  Claim C10. \<^verbatim>\<open>rewrite\<close> fails with an assertion error when \<open>\<Omega>\<close> is empty and when an
  element of \<open>\<Omega>\<close> is not an \<^verbatim>\<open>exp\<close> node, whatever the kernel and the other arguments
  are: nothing has been computed yet. When \<open>\<Omega>\<close> is a nonempty list of \<^verbatim>\<open>exp\<close>
  nodes the two entry assertions pass and \<^verbatim>\<open>rewrite\<close> goes on with the sort.
\<close>

theorem rewrite_entry_assertions:
  "rewrite K (Suc n) e [] x wsym = Inl (AssertionError ''len(Omega)!=0'')
   \<and> ((\<exists>t\<in>set Om1. \<not> is_exp t) \<longrightarrow>
        rewrite K (Suc n) e Om1 x wsym = Inl (AssertionError ''isinstance(t,s.exp)''))
   \<and> (Om2 \<noteq> [] \<and> (\<forall>t\<in>set Om2. is_exp t) \<longrightarrow>
        rewrite_entry Om2 = Inr ()
        \<and> rewrite K (Suc n) e Om2 x wsym =
            (case rewrite_keys (mrv K n) Om2 x of Inl err \<Rightarrow> Inl err
             | Inr ks \<Rightarrow>
               (let Om = sort_by_keys Om2 ks in
                case last Om of
                  Exp garg \<Rightarrow>
                    (case sign K n garg x of Inl err \<Rightarrow> Inl err
                     | Inr sg \<Rightarrow>
                       (let w = (if sg = 1 then k_div K (Rational 1) wsym else wsym) in
                        case mapE (rewrite_term K (mrvleadterm K n) garg x w) Om of
                          Inl err \<Rightarrow> Inl err
                        | Inr O2 \<Rightarrow> Inr (subs_all K e (zip Om O2))))
                | _ \<Rightarrow> Inl AttributeError)))"
proof -
  have 1: "rewrite K (Suc n) e [] x wsym = Inl (AssertionError ''len(Omega)!=0'')"
    by (simp add: rewrite_Suc rewrite_pairs_eq rewrite_entry_def)
  have 2: "rewrite K (Suc n) e Om1 x wsym = Inl (AssertionError ''isinstance(t,s.exp)'')"
    if "\<exists>t\<in>set Om1. \<not> is_exp t"
    using that by (simp add: rewrite_Suc rewrite_pairs_eq rewrite_entry_def list_all_iff)
  have 3: "rewrite_entry Om2 = Inr ()" if "Om2 \<noteq> []" "\<forall>t\<in>set Om2. is_exp t"
    using that by (simp add: rewrite_entry_def list_all_iff)
  show ?thesis
    using 1 2 3
    by (auto simp: rewrite_Suc rewrite_pairs_eq Let_def split: sum.splits expr.splits)
qed

theorem rewrite_entry_assertions_witness:
  "\<not> is_exp (Symbol ''x'')
   \<and> rewrite sample_kernel (Suc 8) (Exp (Symbol ''x'')) [Exp (Symbol ''x''), Symbol ''x'']
        (Symbol ''x'') (Symbol ''w'') = Inl (AssertionError ''isinstance(t,s.exp)'')
   \<and> [Exp (Symbol ''x'')] \<noteq> [] \<and> is_exp (Exp (Symbol ''x''))
   \<and> rewrite_entry [Exp (Symbol ''x'')] = Inr ()
   \<and> rewrite sample_kernel (Suc 8) (Exp (Symbol ''x'')) [Exp (Symbol ''x'')]
        (Symbol ''x'') (Symbol ''w'') = Inr (Pow (Symbol ''w'') (Rational (- 1)))"
proof -
  have r: "rewrite sample_kernel (Suc 8) (Exp (Symbol ''x'')) [Exp (Symbol ''x'')]
        (Symbol ''x'') (Symbol ''w'') = Inr (Pow (Symbol ''w'') (Rational (- 1)))"
    by code_simp
  show ?thesis
    using rewrite_entry_assertions [where K = sample_kernel and n = 8
        and e = "Exp (Symbol ''x'')" and x = "Symbol ''x''" and wsym = "Symbol ''w''"
        and ?Om1.0 = "[Exp (Symbol ''x''), Symbol ''x'']" and ?Om2.0 = "[Exp (Symbol ''x'')]"] r
    by (simp add: is_exp_def)
qed

subsection \<open>Sorting, representative and replacements\<close>

lemma mapE_map: "\<forall>t\<in>set xs. f t = Inr (g t) \<Longrightarrow> mapE f xs = Inr (map g xs)"
  by (induction xs) auto

lemma mapE_list_all2: "list_all2 (\<lambda>t y. f t = Inr y) xs ys \<Longrightarrow> mapE f xs = Inr ys"
  by (induction xs ys rule: list_all2_induct) auto

lemma mapE_fails: "t \<in> set xs \<Longrightarrow> f t = Inl err \<Longrightarrow> \<exists>err'. mapE f xs = Inl err'"
  by (induction xs) (auto split: sum.splits)

lemma insort_key_map:
  "insort_key f (h y) (map h ys) = map h (insort_key (\<lambda>t. f (h t)) y ys)"
  by (induction ys) auto

lemma sort_key_map: "sort_key f (map h xs) = map h (sort_key (\<lambda>t. f (h t)) xs)"
  by (induction xs) (auto simp: insort_key_map)

lemma zip_map_same: "zip xs (map k xs) = map (\<lambda>t. (t, k t)) xs"
  by (induction xs) auto

lemma sort_by_keys_map: "sort_by_keys Omega (map k Omega) = sort_key (\<lambda>t. - int (k t)) Omega"
  by (simp add: sort_by_keys_def zip_map_same sort_key_map comp_def)

lemma sort_key_short: "length xs < 2 \<Longrightarrow> sort_key f xs = xs"
  by (cases xs) (auto simp: less_Suc_eq)

lemma rewrite_keys_sorted:
  assumes "2 \<le> length Omega \<longrightarrow> (\<forall>t\<in>set Omega. \<exists>m. mrv K n t x = Inr m)"
  shows "\<exists>ks. rewrite_keys (mrv K n) Omega x = Inr ks
           \<and> sort_by_keys Omega ks = sort_key (\<lambda>t. - int (mrv_size K n x t)) Omega"
proof (cases "length Omega < 2")
  case True
  then have "rewrite_keys (mrv K n) Omega x = Inr (map (\<lambda>t. 0) Omega)"
    by (simp add: rewrite_keys_def mapE_map)
  moreover have "sort_by_keys Omega (map (\<lambda>t. 0) Omega) = Omega"
    by (simp add: sort_by_keys_map sort_key_const)
  ultimately show ?thesis using True by (simp add: sort_key_short)
next
  case False
  have "\<forall>t\<in>set Omega. (case mrv K n t x of Inl err \<Rightarrow> Inl err | Inr m \<Rightarrow> Inr (length m))
          = Inr (mrv_size K n x t)"
    using assms False by (auto simp: mrv_size_def)
  with False have "rewrite_keys (mrv K n) Omega x = Inr (map (mrv_size K n x) Omega)"
    by (simp add: rewrite_keys_def mapE_map)
  then show ?thesis by (simp add: sort_by_keys_map)
qed

lemma rewrite_keys_fails:
  assumes "2 \<le> length Omega" and "t \<in> set Omega" and "mrv K n t x = Inl err"
  shows "\<exists>err'. rewrite_keys (mrv K n) Omega x = Inl err'"
  unfolding rewrite_keys_def
  by (rule mapE_fails [OF assms(2)]) (use assms(1,3) in simp)

lemma sorted_le_last: "sorted xs \<Longrightarrow> y \<in> set xs \<Longrightarrow> y \<le> last xs"
  by (induction xs) auto

lemma rewrite_term_replacement:
  "replacement K n x garg v f b \<Longrightarrow> rewrite_term K (mrvleadterm K n) garg x v f = Inr b"
  by (auto simp: replacement_def rewrite_term_def)

lemma rewrite_term_no_replacement:
  "\<forall>b. \<not> replacement K n x garg v f b \<Longrightarrow>
     \<exists>err. rewrite_term K (mrvleadterm K n) garg x v f = Inl err"
  by (cases f; cases "mrvleadterm K n (k_div K (case f of Exp u \<Rightarrow> u) garg) x None")
     (auto simp: replacement_def rewrite_term_def)

text \<open>
  Claim C3. For a nonempty list \<open>Omega\<close> of \<^verbatim>\<open>exp\<close> nodes, \<^verbatim>\<open>rewrite(e, Omega, x, w)\<close>
  works on \<open>Om\<close>, the list sorted (stably) by the size of \<^verbatim>\<open>mrv(t, x)\<close> descending, and takes
  its last element \<open>g = exp(garg)\<close>, of minimal size, as the representative. With two or
  more elements the sizes are computed, and an error in one of them is the result. The
  substitution variable \<open>v\<close> is \<open>1/w\<close> exactly when \<^verbatim>\<open>sign(arg(g), x)\<close> is \<open>+1\<close> and \<open>w\<close> for
  every other sign; an error of \<^verbatim>\<open>sign\<close> is the result. When every \<open>f = exp(u)\<close> of \<open>Om\<close> has
  its replacement \<open>exp(u - c\<cdot>arg(g))\<cdot>v\<^sup>c\<close> with \<open>(c, 0) = mrvleadterm(u/arg(g), x)\<close>, the
  result is \<open>e\<close> after the substitutions \<^verbatim>\<open>f.subs(a, b)\<close> of each element \<open>a\<close> of \<open>Om\<close> by its
  replacement \<open>b\<close>, one after the other in the order of \<open>Om\<close>; when some element has none,
  the result is an error.
\<close>

theorem rewrite_steps:
  assumes "Omega \<noteq> []" and "\<forall>t\<in>set Omega. is_exp t"
    and "Om = sort_key (\<lambda>t. - int (mrv_size K n x t)) Omega"
    and "last Om = Exp garg"
    and "v = (if sg = 1 then k_div K (Rational 1) wsym else wsym)"
  shows "set Om = set Omega \<and> length Om = length Omega
     \<and> sorted (map (\<lambda>t. - int (mrv_size K n x t)) Om)
     \<and> (\<forall>t\<in>set Omega. mrv_size K n x (Exp garg) \<le> mrv_size K n x t)
     \<and> (2 \<le> length Omega \<and> (\<exists>t\<in>set Omega. \<exists>err. mrv K n t x =
         Inl err) \<longrightarrow>
          (\<exists>err. rewrite K (Suc n) e Omega x wsym = Inl err))
     \<and> ((2 \<le> length Omega \<longrightarrow> (\<forall>t\<in>set Omega. \<exists>m. mrv
         K n t x = Inr m)) \<longrightarrow>
          (sign K n garg x = Inl err \<longrightarrow> rewrite K (Suc n) e Omega x wsym = Inl err)
        \<and> (sign K n garg x = Inr sg \<and> list_all2 (replacement K n x garg v) Om O2
            \<longrightarrow>
             rewrite K (Suc n) e Omega x wsym
               = Inr (foldl (\<lambda>f p. k_subs K f (fst p) (snd p)) e (zip Om O2)))
        \<and> (sign K n garg x = Inr sg \<and> (\<exists>f\<in>set Om. \<forall>b. \<not>
            replacement K n x garg v f b) \<longrightarrow>
             (\<exists>err. rewrite K (Suc n) e Omega x wsym = Inl err)))"
proof -
  have en: "rewrite_entry Omega = Inr ()"
    using assms(1,2) by (simp add: rewrite_entry_def list_all_iff)
  have 2: "sorted (map (\<lambda>t. - int (mrv_size K n x t)) Om)"
    using assms(3) by (simp add: sorted_sort_key)
  have 3: "set Om = set Omega" "length Om = length Omega"
    using assms(3) by simp_all
  have 4: "mrv_size K n x (Exp garg) \<le> mrv_size K n x t" if "t \<in> set Omega" for t
  proof -
    from that 3 have "- int (mrv_size K n x t) \<in> set (map (\<lambda>t. - int (mrv_size K n x
        t)) Om)"
      by auto
    then have le: "- int (mrv_size K n x t) \<le> last (map (\<lambda>t. - int (mrv_size K n x
        t)) Om)"
      by (rule sorted_le_last [OF 2])
    have ne: "Om \<noteq> []"
      using assms(1) 3(2) by auto
    have "last (map (\<lambda>t. - int (mrv_size K n x t)) Om) = - int (mrv_size K n x (Exp garg))"
      using ne assms(4) by (simp add: last_map)
    with le show ?thesis by simp
  qed
  have 5: "\<exists>err. rewrite K (Suc n) e Omega x wsym = Inl err"
    if "2 \<le> length Omega" "t \<in> set Omega" "mrv K n t x = Inl err'" for t err'
  proof -
    from rewrite_keys_fails [OF that] obtain err2
      where "rewrite_keys (mrv K n) Omega x = Inl err2" by blast
    then show ?thesis using en by (simp add: rewrite_Suc rewrite_pairs_eq)
  qed
  have 6: "(sign K n garg x = Inl err \<longrightarrow> rewrite K (Suc n) e Omega x wsym = Inl err)
        \<and> (sign K n garg x = Inr sg \<and> list_all2 (replacement K n x garg v) Om O2
            \<longrightarrow>
             rewrite K (Suc n) e Omega x wsym
               = Inr (foldl (\<lambda>f p. k_subs K f (fst p) (snd p)) e (zip Om O2)))
        \<and> (sign K n garg x = Inr sg \<and> (\<exists>f\<in>set Om. \<forall>b. \<not>
            replacement K n x garg v f b) \<longrightarrow>
             (\<exists>err. rewrite K (Suc n) e Omega x wsym = Inl err))"
    if mr: "2 \<le> length Omega \<longrightarrow> (\<forall>t\<in>set Omega. \<exists>m. mrv K
        n t x = Inr m)"
  proof -
    from rewrite_keys_sorted [OF mr] assms(3)
    obtain ks where ks: "rewrite_keys (mrv K n) Omega x = Inr ks"
      and so: "sort_by_keys Omega ks = Om" by auto
    have a: "rewrite K (Suc n) e Omega x wsym = Inl err" if "sign K n garg x = Inl err"
      using ks so en assms(4) that by (simp add: rewrite_Suc rewrite_pairs_eq)
    have b: "rewrite K (Suc n) e Omega x wsym
               = Inr (foldl (\<lambda>f p. k_subs K f (fst p) (snd p)) e (zip Om O2))"
      if sg: "sign K n garg x = Inr sg" and la: "list_all2 (replacement K n x garg v) Om O2"
    proof -
      have "list_all2 (\<lambda>f b. rewrite_term K (mrvleadterm K n) garg x v f = Inr b) Om O2"
        using la by (rule list_all2_mono) (rule rewrite_term_replacement)
      then have "mapE (rewrite_term K (mrvleadterm K n) garg x v) Om = Inr O2"
        by (rule mapE_list_all2)
      then show ?thesis
        using ks so en sg assms(4,5) by (simp add: rewrite_Suc rewrite_pairs_eq subs_all_def)
    qed
    have c: "\<exists>err. rewrite K (Suc n) e Omega x wsym = Inl err"
      if sg: "sign K n garg x = Inr sg" and f: "f \<in> set Om"
        and no: "\<forall>b. \<not> replacement K n x garg v f b" for f
    proof -
      from rewrite_term_no_replacement [OF no] obtain err1
        where "rewrite_term K (mrvleadterm K n) garg x v f = Inl err1" by blast
      from mapE_fails [where f = "rewrite_term K (mrvleadterm K n) garg x v", OF f this] obtain err2
        where "mapE (rewrite_term K (mrvleadterm K n) garg x v) Om = Inl err2" by blast
      then show ?thesis
        using ks so en sg assms(4,5) by (simp add: rewrite_Suc rewrite_pairs_eq)
    qed
    from a b c show ?thesis by blast
  qed
  from 2 3 4 5 6 show ?thesis by blast
qed

theorem rewrite_steps_witness:
  "is_exp (Exp (Symbol ''x''))
   \<and> is_exp (Exp (Mul [Symbol ''x'', Exp (Symbol ''x''), Pow (Exp (Symbol ''x'')) (Rational
       (- 1))]))
   \<and> mrv sample_kernel 12 (Exp (Symbol ''x'')) (Symbol ''x'') = Inr [Exp (Symbol ''x'')]
   \<and> mrv sample_kernel 12 (Exp (Mul [Symbol ''x'', Exp (Symbol ''x''), Pow (Exp (Symbol
       ''x'')) (Rational (- 1))])) (Symbol ''x'') = Inr [Exp (Mul [Symbol ''x'', Exp (Symbol ''x''),
       Pow (Exp (Symbol ''x'')) (Rational (- 1))]), Exp (Symbol ''x'')]
   \<and> mrv_size sample_kernel 12 (Symbol ''x'') (Exp (Symbol ''x'')) = 1
   \<and> mrv_size sample_kernel 12 (Symbol ''x'') (Exp (Mul [Symbol ''x'', Exp (Symbol ''x''),
       Pow (Exp (Symbol ''x'')) (Rational (- 1))])) = 2
   \<and> sort_key (\<lambda>t. - int (mrv_size sample_kernel 12 (Symbol ''x'') t)) [Exp (Symbol
       ''x''), Exp (Mul [Symbol ''x'', Exp (Symbol ''x''), Pow (Exp (Symbol ''x'')) (Rational (-
       1))])] = [Exp (Mul [Symbol ''x'', Exp (Symbol ''x''), Pow (Exp (Symbol ''x'')) (Rational (-
       1))]), Exp (Symbol ''x'')]
   \<and> sign sample_kernel 12 (Symbol ''x'') (Symbol ''x'') = Inr 1
   \<and> replacement sample_kernel 12 (Symbol ''x'') (Symbol ''x'') (k_div sample_kernel
       (Rational 1) (Symbol ''w'')) (Exp (Mul [Symbol ''x'', Exp (Symbol ''x''), Pow (Exp (Symbol
       ''x'')) (Rational (- 1))])) (Pow (Symbol ''w'') (Rational (- 1)))
   \<and> replacement sample_kernel 12 (Symbol ''x'') (Symbol ''x'') (k_div sample_kernel
       (Rational 1) (Symbol ''w'')) (Exp (Symbol ''x'')) (Pow (Symbol ''w'') (Rational (- 1)))
   \<and> rewrite sample_kernel (Suc 12) (Add [Exp (Mul [Symbol ''x'', Exp (Symbol ''x''), Pow
       (Exp (Symbol ''x'')) (Rational (- 1))]), Exp (Symbol ''x'')]) [Exp (Symbol ''x''), Exp (Mul
       [Symbol ''x'', Exp (Symbol ''x''), Pow (Exp (Symbol ''x'')) (Rational (- 1))])] (Symbol
       ''x'') (Symbol ''w'') = Inr (Add [Pow (Symbol ''w'') (Rational (- 1)), Pow (Symbol ''w'')
       (Rational (- 1))])
   \<and> is_exp (Exp (Mul [Rational (- 1), Symbol ''x'']))
   \<and> sign sample_kernel 12 (Mul [Rational (- 1), Symbol ''x'']) (Symbol ''x'') = Inr (- 1)
   \<and> replacement sample_kernel 12 (Symbol ''x'') (Mul [Rational (- 1), Symbol ''x''])
       (Symbol ''w'') (Exp (Mul [Rational (- 1), Symbol ''x''])) (Symbol ''w'')
   \<and> rewrite sample_kernel (Suc 12) (Exp (Mul [Rational (- 1), Symbol ''x''])) [Exp (Mul
       [Rational (- 1), Symbol ''x''])] (Symbol ''x'') (Symbol ''w'') = Inr (Symbol ''w'')
   \<and> is_exp (Exp (Add [Symbol ''x'', Rational 1]))
   \<and> sign sample_kernel 12 (Add [Symbol ''x'', Rational 1]) (Symbol ''x'') = Inl
       (CannotDetermineSign (Add [Symbol ''x'', Rational 1]))
   \<and> rewrite sample_kernel (Suc 12) (Exp (Add [Symbol ''x'', Rational 1])) [Exp (Add
       [Symbol ''x'', Rational 1])] (Symbol ''x'') (Symbol ''w'') = Inl (CannotDetermineSign (Add
       [Symbol ''x'', Rational 1]))"
proof -
  have mE: "mrv sample_kernel 12 (Exp (Symbol ''x'')) (Symbol ''x'') = Inr [Exp (Symbol ''x'')]"
    and mF: "mrv sample_kernel 12 (Exp (Mul [Symbol ''x'', Exp (Symbol ''x''), Pow (Exp (Symbol
        ''x'')) (Rational (- 1))])) (Symbol ''x'') = Inr [Exp (Mul [Symbol ''x'', Exp (Symbol
        ''x''), Pow (Exp (Symbol ''x'')) (Rational (- 1))]), Exp (Symbol ''x'')]"
    and sg: "sign sample_kernel 12 (Symbol ''x'') (Symbol ''x'') = Inr 1"
    and lF: "mrvleadterm sample_kernel 12 (k_div sample_kernel (Mul [Symbol ''x'', Exp (Symbol
        ''x''), Pow (Exp (Symbol ''x'')) (Rational (- 1))]) (Symbol ''x'')) (Symbol ''x'') None =
        Inr (Rational 1, Rational 0)"
    and lE: "mrvleadterm sample_kernel 12 (k_div sample_kernel (Symbol ''x'') (Symbol ''x''))
        (Symbol ''x'') None = Inr (Rational 1, Rational 0)"
    and bF: "Pow (Symbol ''w'') (Rational (- 1)) = k_eval sample_kernel (k_mul sample_kernel
        (Exp (k_sub sample_kernel (Mul [Symbol ''x'', Exp (Symbol ''x''), Pow (Exp (Symbol ''x''))
        (Rational (- 1))]) (k_mul sample_kernel (Rational 1) (Symbol ''x'')))) (k_pow sample_kernel
        (k_div sample_kernel (Rational 1) (Symbol ''w'')) (Rational 1)))"
    and bE: "Pow (Symbol ''w'') (Rational (- 1)) = k_eval sample_kernel (k_mul sample_kernel
        (Exp (k_sub sample_kernel (Symbol ''x'') (k_mul sample_kernel (Rational 1) (Symbol ''x''))))
        (k_pow sample_kernel (k_div sample_kernel (Rational 1) (Symbol ''w'')) (Rational 1)))"
    and z: "k_eq sample_kernel (Rational 0) (Rational 0)"
    and su: "k_subs sample_kernel (k_subs sample_kernel (Add [Exp (Mul [Symbol ''x'', Exp
        (Symbol ''x''), Pow (Exp (Symbol ''x'')) (Rational (- 1))]), Exp (Symbol ''x'')]) (Exp (Mul
        [Symbol ''x'', Exp (Symbol ''x''), Pow (Exp (Symbol ''x'')) (Rational (- 1))])) (Pow (Symbol
        ''w'') (Rational (- 1)))) (Exp (Symbol ''x'')) (Pow (Symbol ''w'') (Rational (- 1))) = Add
        [Pow (Symbol ''w'') (Rational (- 1)), Pow (Symbol ''w'') (Rational (- 1))]"
    and sgN: "sign sample_kernel 12 (Mul [Rational (- 1), Symbol ''x'']) (Symbol ''x'') = Inr (- 1)"
    and lN: "mrvleadterm sample_kernel 12 (k_div sample_kernel (Mul [Rational (- 1), Symbol
        ''x'']) (Mul [Rational (- 1), Symbol ''x''])) (Symbol ''x'') None = Inr (Rational 1,
        Rational 0)"
    and bN: "Symbol ''w'' = k_eval sample_kernel (k_mul sample_kernel (Exp (k_sub sample_kernel
        (Mul [Rational (- 1), Symbol ''x'']) (k_mul sample_kernel (Rational 1) (Mul [Rational (- 1),
        Symbol ''x''])))) (k_pow sample_kernel (Symbol ''w'') (Rational 1)))"
    and suN: "k_subs sample_kernel (Exp (Mul [Rational (- 1), Symbol ''x''])) (Exp (Mul
        [Rational (- 1), Symbol ''x''])) (Symbol ''w'') = Symbol ''w''"
    and sg1: "sign sample_kernel 12 (Add [Symbol ''x'', Rational 1]) (Symbol ''x'') = Inl
        (CannotDetermineSign (Add [Symbol ''x'', Rational 1]))"
    by code_simp+
  have szE: "mrv_size sample_kernel 12 (Symbol ''x'') (Exp (Symbol ''x'')) = 1" and szF:
      "mrv_size sample_kernel 12 (Symbol ''x'') (Exp (Mul [Symbol ''x'', Exp (Symbol ''x''), Pow
      (Exp (Symbol ''x'')) (Rational (- 1))])) = 2"
    using mE mF by (simp_all add: mrv_size_def)
  have so: "sort_key (\<lambda>t. - int (mrv_size sample_kernel 12 (Symbol ''x'') t)) [Exp
      (Symbol ''x''), Exp (Mul [Symbol ''x'', Exp (Symbol ''x''), Pow (Exp (Symbol ''x'')) (Rational
      (- 1))])] = [Exp (Mul [Symbol ''x'', Exp (Symbol ''x''), Pow (Exp (Symbol ''x'')) (Rational (-
      1))]), Exp (Symbol ''x'')]"
    using szE szF by simp
  have rF: "replacement sample_kernel 12 (Symbol ''x'') (Symbol ''x'') (k_div sample_kernel
      (Rational 1) (Symbol ''w'')) (Exp (Mul [Symbol ''x'', Exp (Symbol ''x''), Pow (Exp (Symbol
      ''x'')) (Rational (- 1))])) (Pow (Symbol ''w'') (Rational (- 1)))"
    unfolding replacement_def using lF bF z by blast
  have rE: "replacement sample_kernel 12 (Symbol ''x'') (Symbol ''x'') (k_div sample_kernel
      (Rational 1) (Symbol ''w'')) (Exp (Symbol ''x'')) (Pow (Symbol ''w'') (Rational (- 1)))"
    unfolding replacement_def using lE bE z by blast
  have rN: "replacement sample_kernel 12 (Symbol ''x'') (Mul [Rational (- 1), Symbol ''x''])
      (Symbol ''w'') (Exp (Mul [Rational (- 1), Symbol ''x''])) (Symbol ''w'')"
    unfolding replacement_def using lN bN z by blast
  have r1: "rewrite sample_kernel (Suc 12) (Add [Exp (Mul [Symbol ''x'', Exp (Symbol ''x''), Pow
      (Exp (Symbol ''x'')) (Rational (- 1))]), Exp (Symbol ''x'')]) [Exp (Symbol ''x''), Exp (Mul
      [Symbol ''x'', Exp (Symbol ''x''), Pow (Exp (Symbol ''x'')) (Rational (- 1))])] (Symbol ''x'')
      (Symbol ''w'') = Inr (Add [Pow (Symbol ''w'') (Rational (- 1)), Pow (Symbol ''w'') (Rational
      (- 1))])"
    using rewrite_steps [where K = sample_kernel and n = 12 and x = "Symbol ''x''"
        and Omega = "[Exp (Symbol ''x''), Exp (Mul [Symbol ''x'', Exp (Symbol ''x''), Pow (Exp
            (Symbol ''x'')) (Rational (- 1))])]" and Om = "[Exp (Mul [Symbol ''x'', Exp (Symbol
            ''x''), Pow (Exp (Symbol ''x'')) (Rational (- 1))]), Exp (Symbol ''x'')]"
        and garg = "Symbol ''x''" and sg = 1 and wsym = "Symbol ''w''"
        and v = "k_div sample_kernel (Rational 1) (Symbol ''w'')"
        and ?O2.0 = "[Pow (Symbol ''w'') (Rational (- 1)), Pow (Symbol ''w'') (Rational (- 1))]"
        and e = "Add [Exp (Mul [Symbol ''x'', Exp (Symbol ''x''), Pow (Exp (Symbol ''x''))
            (Rational (- 1))]), Exp (Symbol ''x'')]"]
      mE mF szE szF so sg rF rE su
    by (simp add: is_exp_def)
  have r2: "rewrite sample_kernel (Suc 12) (Exp (Mul [Rational (- 1), Symbol ''x''])) [Exp (Mul
      [Rational (- 1), Symbol ''x''])] (Symbol ''x'') (Symbol ''w'') = Inr (Symbol ''w'')"
    using rewrite_steps [where K = sample_kernel and n = 12 and x = "Symbol ''x''"
        and Omega = "[Exp (Mul [Rational (- 1), Symbol ''x''])]" and Om = "[Exp (Mul [Rational
            (- 1), Symbol ''x''])]"
        and garg = "Mul [Rational (- 1), Symbol ''x'']" and sg = "- 1" and wsym = "Symbol ''w''"
        and v = "Symbol ''w''" and ?O2.0 = "[Symbol ''w'']" and e = "Exp (Mul [Rational (- 1),
            Symbol ''x''])"]
      sgN rN suN
    by (simp add: is_exp_def)
  have r3: "rewrite sample_kernel (Suc 12) (Exp (Add [Symbol ''x'', Rational 1])) [Exp (Add
      [Symbol ''x'', Rational 1])] (Symbol ''x'') (Symbol ''w'') = Inl (CannotDetermineSign (Add
      [Symbol ''x'', Rational 1]))"
    using rewrite_steps [where K = sample_kernel and n = 12 and x = "Symbol ''x''"
        and Omega = "[Exp (Add [Symbol ''x'', Rational 1])]" and Om = "[Exp (Add [Symbol ''x'',
            Rational 1])]"
        and garg = "Add [Symbol ''x'', Rational 1]" and sg = 0 and wsym = "Symbol ''w''"
        and v = "Symbol ''w''" and e = "Exp (Add [Symbol ''x'', Rational 1])"
        and err = "CannotDetermineSign (Add [Symbol ''x'', Rational 1])"]
      sg1
    by (simp add: is_exp_def)
  show ?thesis
    using mE mF szE szF so sg rF rE r1 sgN rN r2 sg1 r3 by (simp add: is_exp_def)
qed

subsection \<open>Elements of the list in the rewritten expression\<close>















section \<open>The leading term\<close>





end
